theory Spec2Isabelle
  imports Main "HOL-Library.Word"
begin

section \<open>Bytes, text and slices\<close>

text \<open>
  A Python \<open>bytes\<close> object is a list of 8-bit words, a Python \<open>str\<close> the list of its
  code points. Encoding names are strings.
\<close>

type_synonym byte = "8 word"
type_synonym bytes = "byte list"
type_synonym py_str = "nat list"

text \<open>
  The slice \<open>xs[:n]\<close> for a Python integer \<open>n\<close>: a negative stop counts from the end
  and is clipped at 0, a stop past the end gives the whole sequence.
\<close>

definition slice_to :: "'a list \<Rightarrow> int \<Rightarrow> 'a list" where
  "slice_to xs n =
     (if n < 0 then take (nat (int (length xs) + n)) xs else take (nat n) xs)"

text \<open>\<open>bytes.startswith(prefix)\<close>.\<close>

definition startswith :: "bytes \<Rightarrow> bytes \<Rightarrow> bool" where
  "startswith s p = (take (length p) s = p)"

text \<open>\<open>bytes.hex()\<close>: two lower-case hexadecimal digits per byte.\<close>

definition hex_digit :: "nat \<Rightarrow> char" where
  "hex_digit d = ''0123456789abcdef'' ! d"

definition hex :: "bytes \<Rightarrow> string" where
  "hex bs = concat (map (\<lambda>b. [hex_digit (unat b div 16), hex_digit (unat b mod 16)]) bs)"

section \<open>The product \<open>len(sample) * 0.3\<close>\<close>

text \<open>
  \<open>len(sample) * 0.3\<close> is a product of IEEE-754 doubles: the length is converted to
  the nearest double, multiplied with the double nearest to 0.3, which is
  \<open>5404319552844595 / 2^54\<close>, and the exact product is rounded to 53 significant bits,
  ties to even. All the values involved are non-negative integer multiples of
  \<open>2^-54\<close> in the normal range, so they are kept as natural numbers in that unit.
  Python compares an \<open>int\<close> with a \<open>float\<close> by their exact values.
\<close>

fun excess_bits :: "nat \<Rightarrow> nat" where
  "excess_bits p = (if p < 2 ^ 53 then 0 else Suc (excess_bits (p div 2)))"

declare excess_bits.simps [simp del]

definition round_at :: "nat \<Rightarrow> nat \<Rightarrow> nat" where
  "round_at e p =
     (let q = p div 2 ^ e; r = p mod 2 ^ e
      in if 2 ^ e < 2 * r \<or> (2 * r = 2 ^ e \<and> odd q) then (q + 1) * 2 ^ e else q * 2 ^ e)"

definition round53 :: "nat \<Rightarrow> nat" where
  "round53 p = round_at (excess_bits p) p"

definition double_03 :: nat where
  "double_03 = 5404319552844595"

definition times_03 :: "nat \<Rightarrow> nat" where
  "times_03 n = round53 (round53 n * double_03)"

definition int_gt_float :: "nat \<Rightarrow> nat \<Rightarrow> bool" where
  "int_gt_float c x = (x < c * 2 ^ 54)"

section \<open>\<open>guess_content_type\<close>\<close>

definition binary_sigs :: "bytes list" where
  "binary_sigs =
     [[0x25, 0x50, 0x44, 0x46, 0x2D],
      [0x50, 0x4B, 0x03, 0x04],
      [0x89, 0x50, 0x4E, 0x47],
      [0xFF, 0xD8, 0xFF],
      [0x1F, 0x8B]]"

text \<open>The loop over the signatures: \<open>True\<close> when it returns \<open>'binary'\<close>.\<close>

fun sig_loop :: "bytes \<Rightarrow> bytes list \<Rightarrow> bool" where
  "sig_loop sample [] = False"
| "sig_loop sample (sig # sigs) =
     (if startswith sample sig then True else sig_loop sample sigs)"

definition control_chars :: "bytes \<Rightarrow> nat" where
  "control_chars sample = length (filter (\<lambda>b. b < 32 \<and> b \<notin> {9, 10, 13}) sample)"

definition guess_content_type :: "bytes \<Rightarrow> int \<Rightarrow> string" where
  "guess_content_type data sample_size =
     (let sample = slice_to data sample_size
      in if sig_loop sample binary_sigs then ''binary''
         else if int_gt_float (control_chars sample) (times_03 (length sample)) then ''binary''
         else ''text'')"

section \<open>\<open>safe_decode\<close>\<close>

text \<open>
  \<open>data.decode(enc)\<close> belongs to the Python library. It is a parameter of the model: a
  function from the encoding name and the bytes to the outcome of the call, which is
  the decoded text, a \<open>UnicodeError\<close> (the bytes are not valid in that encoding), a
  \<open>LookupError\<close> (the library found no text encoding of that name), or an exception of
  another class, given by its name, such as the plain \<open>ValueError\<close> for a NUL character
  in the encoding name. The source catches the \<open>UnicodeError\<close> and nothing else.
\<close>

datatype decode_outcome =
    Decoded py_str
  | RaisesUnicodeError
  | RaisesLookupError
  | RaisesOther string

type_synonym decoder = "string \<Rightarrow> bytes \<Rightarrow> decode_outcome"

text \<open>
  The exceptions that leave \<open>safe_decode\<close>. \<open>ValueError\<close> carries \<open>data[:20].hex()\<close>, and
  \<open>UnicodeError\<close> the list \<open>[primary_encoding] + fallback_encodings\<close> and
  \<open>data[:100].hex()\<close>, which the source interpolates into the messages. \<open>LookupError\<close> is
  the library's own, for the name it carries, and \<open>Propagated\<close> is any other exception of
  the library, by the name of its class; a \<open>ValueError\<close> of the library is \<open>Propagated\<close>,
  which keeps it apart from the one the source raises for binary content.
\<close>

datatype py_exception =
    ValueError string
  | UnicodeError "string list" string
  | LookupError string
  | Propagated string

text \<open>
  A run of \<open>safe_decode\<close> is the list of encodings it handed to \<open>data.decode\<close>, in call
  order, and the value returned or the exception raised.
\<close>

type_synonym run = "string list \<times> (py_exception + py_str \<times> string)"

definition default_fallbacks :: "string list" where
  "default_fallbacks = [''latin1'', ''cp1252'', ''ascii'']"

text \<open>\<open>if not fallback_encodings\<close>: \<open>None\<close> and the empty list are both falsy.\<close>

definition effective_fallbacks :: "string list option \<Rightarrow> string list" where
  "effective_fallbacks fallback_encodings =
     (case fallback_encodings of
        None \<Rightarrow> default_fallbacks
      | Some [] \<Rightarrow> default_fallbacks
      | Some (enc # encs) \<Rightarrow> enc # encs)"

text \<open>
  The loop over the fallbacks. \<open>None\<close> as its result: every fallback raised
  \<open>UnicodeError\<close> and the loop ran to its end.
\<close>

fun fallback_loop ::
  "decoder \<Rightarrow> bytes \<Rightarrow> string list \<Rightarrow> string list \<times> (py_exception + py_str \<times> string) option"
where
  "fallback_loop dec data [] = ([], None)"
| "fallback_loop dec data (enc # encs) =
     (case dec enc data of
        Decoded t \<Rightarrow> ([enc], Some (Inr (t, enc)))
      | RaisesUnicodeError \<Rightarrow>
          (case fallback_loop dec data encs of (tried, r) \<Rightarrow> (enc # tried, r))
      | RaisesLookupError \<Rightarrow> ([enc], Some (Inl (LookupError enc)))
      | RaisesOther c \<Rightarrow> ([enc], Some (Inl (Propagated c))))"

definition safe_decode :: "decoder \<Rightarrow> bytes \<Rightarrow> string \<Rightarrow> string list option \<Rightarrow> run" where
  "safe_decode dec data primary_encoding fallback_encodings =
     (let fallbacks = effective_fallbacks fallback_encodings
      in if guess_content_type data 1024 = ''binary''
         then ([], Inl (ValueError (hex (take 20 data))))
         else
           (case dec primary_encoding data of
              Decoded t \<Rightarrow> ([primary_encoding], Inr (t, primary_encoding))
            | RaisesLookupError \<Rightarrow> ([primary_encoding], Inl (LookupError primary_encoding))
            | RaisesOther c \<Rightarrow> ([primary_encoding], Inl (Propagated c))
            | RaisesUnicodeError \<Rightarrow>
                (case fallback_loop dec data fallbacks of
                   (tried, Some r) \<Rightarrow> (primary_encoding # tried, r)
                 | (tried, None) \<Rightarrow>
                     (primary_encoding # tried,
                      Inl (UnicodeError (primary_encoding # fallbacks) (hex (take 100 data)))))))"

section \<open>The library's decoders\<close>

text \<open>
  The codecs the source names, as the Python library defines them, for running
  \<open>safe_decode\<close> on concrete bytes: \<open>latin1\<close> maps every byte to the code point of the
  same number, \<open>ascii\<close> accepts the bytes below 128, \<open>cp1252\<close> differs from \<open>latin1\<close>
  between 0x80 and 0x9F, where five bytes are undefined, and \<open>utf-8\<close> is the strict
  decoder (shortest form, no surrogates, at most U+10FFFF).
\<close>

definition latin1_decode :: "bytes \<Rightarrow> py_str option" where
  "latin1_decode bs = Some (map unat bs)"

definition ascii_decode :: "bytes \<Rightarrow> py_str option" where
  "ascii_decode bs = (if list_all (\<lambda>b. b < 128) bs then Some (map unat bs) else None)"

definition cp1252_high :: "nat option list" where
  "cp1252_high =
     [Some 0x20AC, None, Some 0x201A, Some 0x0192, Some 0x201E, Some 0x2026, Some 0x2020,
      Some 0x2021, Some 0x02C6, Some 0x2030, Some 0x0160, Some 0x2039, Some 0x0152, None,
      Some 0x017D, None, None, Some 0x2018, Some 0x2019, Some 0x201C, Some 0x201D,
      Some 0x2022, Some 0x2013, Some 0x2014, Some 0x02DC, Some 0x2122, Some 0x0161,
      Some 0x203A, Some 0x0153, None, Some 0x017E, Some 0x0178]"

definition cp1252_char :: "byte \<Rightarrow> nat option" where
  "cp1252_char b =
     (if 0x80 \<le> b \<and> b \<le> 0x9F then cp1252_high ! (unat b - 0x80) else Some (unat b))"

fun cp1252_decode :: "bytes \<Rightarrow> py_str option" where
  "cp1252_decode [] = Some []"
| "cp1252_decode (b # bs) =
     (case cp1252_char b of
        None \<Rightarrow> None
      | Some c \<Rightarrow> map_option ((#) c) (cp1252_decode bs))"

definition in_range :: "byte \<Rightarrow> byte \<Rightarrow> byte \<Rightarrow> bool" where
  "in_range lo hi b = (lo \<le> b \<and> b \<le> hi)"

definition cont_bits :: "byte \<Rightarrow> nat" where
  "cont_bits b = unat b - 0x80"

fun utf8_decode :: "bytes \<Rightarrow> py_str option" where
  "utf8_decode [] = Some []"
| "utf8_decode (b0 # bs) =
     (if b0 < 0x80 then map_option ((#) (unat b0)) (utf8_decode bs)
      else if in_range 0xC2 0xDF b0 then
        (case bs of
           b1 # rest \<Rightarrow>
             if in_range 0x80 0xBF b1
             then map_option ((#) ((unat b0 - 0xC0) * 64 + cont_bits b1)) (utf8_decode rest)
             else None
         | _ \<Rightarrow> None)
      else if in_range 0xE0 0xEF b0 then
        (case bs of
           b1 # b2 # rest \<Rightarrow>
             if in_range (if b0 = 0xE0 then 0xA0 else 0x80) (if b0 = 0xED then 0x9F else 0xBF) b1
                \<and> in_range 0x80 0xBF b2
             then map_option
                    ((#) ((unat b0 - 0xE0) * 4096 + cont_bits b1 * 64 + cont_bits b2))
                    (utf8_decode rest)
             else None
         | _ \<Rightarrow> None)
      else if in_range 0xF0 0xF4 b0 then
        (case bs of
           b1 # b2 # b3 # rest \<Rightarrow>
             if in_range (if b0 = 0xF0 then 0x90 else 0x80) (if b0 = 0xF4 then 0x8F else 0xBF) b1
                \<and> in_range 0x80 0xBF b2 \<and> in_range 0x80 0xBF b3
             then map_option
                    ((#) ((unat b0 - 0xF0) * 262144 + cont_bits b1 * 4096
                          + cont_bits b2 * 64 + cont_bits b3))
                    (utf8_decode rest)
             else None
         | _ \<Rightarrow> None)
      else None)"

text \<open>
  \<open>bytes.decode\<close> of CPython over these four codecs. A NUL character in the name is
  refused with \<open>ValueError\<close> before anything else; empty bytes give the empty text
  without any look at the registry, whatever the name; otherwise the name is looked
  up, and a name that is not found raises \<open>LookupError\<close>. The registry is modelled only
  at the four spellings the source uses: the library's other codecs (\<open>utf-16\<close>) and
  other spellings of these four (\<open>utf8\<close>, \<open>latin-1\<close>) are not in it, so \<open>py_decode\<close> is the
  library at these four names and at names the library does not know either.
\<close>

definition py_decode :: decoder where
  "py_decode enc data =
     (if CHR 0x00 \<in> set enc then RaisesOther ''ValueError''
      else if data = [] then Decoded []
      else
        (case (if enc = ''utf-8'' then Some (utf8_decode data)
               else if enc = ''latin1'' then Some (latin1_decode data)
               else if enc = ''cp1252'' then Some (cp1252_decode data)
               else if enc = ''ascii'' then Some (ascii_decode data)
               else None) of
           None \<Rightarrow> RaisesLookupError
         | Some None \<Rightarrow> RaisesUnicodeError
         | Some (Some t) \<Rightarrow> Decoded t))"


section \<open>Evaluation and auxiliary facts\<close>

lemmas classify_eval =
  guess_content_type_def slice_to_def binary_sigs_def startswith_def control_chars_def
  int_gt_float_def times_03_def round53_def round_at_def excess_bits.simps double_03_def

lemmas decode_eval =
  safe_decode_def effective_fallbacks_def default_fallbacks_def py_decode_def
  latin1_decode_def ascii_decode_def in_range_def cont_bits_def cp1252_char_def
  cp1252_high_def hex_def hex_digit_def

lemma sig_loop_iff: "sig_loop sample sigs = (\<exists>sig \<in> set sigs. startswith sample sig)"
  by (induction sigs) auto

lemma slice_to_idem: "0 \<le> n \<Longrightarrow> slice_to (slice_to xs n) n = slice_to xs n"
  by (simp add: slice_to_def)

lemma fallback_loop_skip:
  "\<forall>e \<in> set pre. dec e data = RaisesUnicodeError \<Longrightarrow>
   fallback_loop dec data (pre @ rest)
     = (pre @ fst (fallback_loop dec data rest), snd (fallback_loop dec data rest))"
  by (induction pre) (auto split: prod.splits)

lemma fallback_loop_all_fail:
  "\<forall>e \<in> set encs. dec e data = RaisesUnicodeError \<Longrightarrow>
   fallback_loop dec data encs = (encs, None)"
  by (induction encs) auto


text \<open>
  The bytes \<open>b"caf\xe9"\<close>, the \<open>latin1\<close> encoding of the word cafe with an acute
  accent: text for the classifier, valid in \<open>latin1\<close>, invalid in \<open>utf-8\<close> and in
  \<open>ascii\<close>.
\<close>

lemma cafe_text: "guess_content_type [0x63, 0x61, 0x66, 0xE9] 1024 = ''text''"
  by (simp add: classify_eval)

lemma cafe_utf8: "py_decode ''utf-8'' [0x63, 0x61, 0x66, 0xE9] = RaisesUnicodeError"
  by (simp add: decode_eval)

lemma cafe_ascii: "py_decode ''ascii'' [0x63, 0x61, 0x66, 0xE9] = RaisesUnicodeError"
  by (simp add: decode_eval)

lemma cafe_latin1: "py_decode ''latin1'' [0x63, 0x61, 0x66, 0xE9] = Decoded [99, 97, 102, 233]"
  by (simp add: decode_eval)

lemma pdf_binary: "guess_content_type [0x25, 0x50, 0x44, 0x46, 0x2D, 0x31] 1024 = ''binary''"
  by (simp add: classify_eval)

lemma empty_text: "guess_content_type [] 1024 = ''text''"
  by (simp add: classify_eval)

lemma empty_utf8: "py_decode ''utf-8'' [] = Decoded []"
  by (simp add: decode_eval)

lemma abc_text: "guess_content_type [0x61, 0x62, 0x63] 1024 = ''text''"
  by (simp add: classify_eval)

lemma cafe_bogus: "py_decode ''bogus'' [0x63, 0x61, 0x66, 0xE9] = RaisesLookupError"
  by (simp add: py_decode_def)

lemma abc_bogus: "py_decode ''bogus'' [0x61, 0x62, 0x63] = RaisesLookupError"
  by (simp add: py_decode_def)

lemma empty_bogus: "py_decode ''bogus'' [] = Decoded []"
  by (simp add: py_decode_def)

section \<open>The rounded product against the exact 30 percent\<close>

text \<open>
  Rounding to 53 bits moves a value by at most half a unit in the last place. For
  lengths below \<open>2^51\<close> that is too little for \<open>len * 0.3\<close> to cross an integer, and
  where three tenths of the length is an integer the product rounds exactly to it. So
  the comparison of the count with the product is the comparison of ten times the count
  with three times the length.
\<close>

lemma excess_bits_small: "p < 2 ^ 53 \<Longrightarrow> excess_bits p = 0"
  by (subst excess_bits.simps) simp

lemma round_at_0: "round_at 0 p = p"
  by (simp add: round_at_def)

lemma round53_small: "p < 2 ^ 53 \<Longrightarrow> round53 p = p"
  by (simp add: round53_def excess_bits_small round_at_0)

lemma excess_bits_upper: "p < 2 ^ 53 * 2 ^ excess_bits p"
proof (induction p rule: excess_bits.induct)
  case (1 p)
  show ?case
  proof (cases "p < 2 ^ 53")
    case True
    then show ?thesis by (simp add: excess_bits_small)
  next
    case False
    then have e: "excess_bits p = Suc (excess_bits (p div 2))"
      by (subst excess_bits.simps) simp
    from 1 [OF False] have "p div 2 < 2 ^ 53 * 2 ^ excess_bits (p div 2)" .
    then have "p < 2 * (2 ^ 53 * 2 ^ excess_bits (p div 2))"
      by linarith
    then show ?thesis
      by (simp add: e)
  qed
qed

lemma excess_bits_lower: "0 < excess_bits p \<Longrightarrow> 2 ^ 52 * 2 ^ excess_bits p \<le> p"
proof (induction p rule: excess_bits.induct)
  case (1 p)
  show ?case
  proof (cases "p < 2 ^ 53")
    case True
    with 1(2) show ?thesis by (simp add: excess_bits_small)
  next
    case False
    then have e: "excess_bits p = Suc (excess_bits (p div 2))"
      by (subst excess_bits.simps) simp
    show ?thesis
    proof (cases "0 < excess_bits (p div 2)")
      case True
      from 1(1) [OF False True] have "2 ^ 52 * 2 ^ excess_bits (p div 2) \<le> p div 2" .
      then have "2 * (2 ^ 52 * 2 ^ excess_bits (p div 2)) \<le> p"
        by linarith
      then show ?thesis by (simp add: e)
    next
      case False
      with e have "excess_bits p = 1" by simp
      with \<open>\<not> p < 2 ^ 53\<close> show ?thesis by simp
    qed
  qed
qed

lemma round_at_near:
  "2 * round_at e p \<le> 2 * p + 2 ^ e \<and> 2 * p \<le> 2 * round_at e p + 2 ^ e"
proof -
  define q where "q = p div 2 ^ e"
  define r where "r = p mod 2 ^ e"
  have p: "p = q * 2 ^ e + r"
    unfolding q_def r_def by (rule div_mult_mod_eq [symmetric])
  have r: "r < 2 ^ e"
    by (simp add: r_def)
  show ?thesis
  proof (cases "2 ^ e < 2 * r \<or> (2 * r = 2 ^ e \<and> odd q)")
    case True
    then have "round_at e p = (q + 1) * 2 ^ e"
      by (auto simp add: round_at_def Let_def q_def r_def)
    with True p r show ?thesis
      by (auto simp add: algebra_simps)
  next
    case False
    then have "round_at e p = q * 2 ^ e"
      by (auto simp add: round_at_def Let_def q_def r_def)
    with False p r show ?thesis
      by (auto simp add: algebra_simps)
  qed
qed

lemma round53_near:
  "2 ^ 53 * round53 p \<le> (2 ^ 53 + 1) * p \<and> (2 ^ 53 - 1) * p \<le> 2 ^ 53 * round53 p"
proof (cases "excess_bits p = 0")
  case True
  then show ?thesis
    by (simp add: round53_def round_at_0 algebra_simps)
next
  case False
  then have "2 ^ 52 * 2 ^ excess_bits p \<le> p"
    by (intro excess_bits_lower) simp
  moreover have "2 * round53 p \<le> 2 * p + 2 ^ excess_bits p"
    and "2 * p \<le> 2 * round53 p + 2 ^ excess_bits p"
    using round_at_near [of "excess_bits p" p] by (simp_all add: round53_def)
  ultimately show ?thesis
    by simp
qed

lemma round_at_up:
  assumes "c = m * 2 ^ e" and "p \<le> c" and "2 * (c - p) < 2 ^ e"
  shows "round_at e p = c"
proof (cases "p = c")
  case True
  with assms(1) show ?thesis
    by (simp add: round_at_def)
next
  case False
  define d where "d = c - p"
  from False assms(2,3) have d: "0 < d" "2 * d < 2 ^ e" "p + d = c"
    by (simp_all add: d_def)
  from d assms(1) have "0 < m"
    by (cases m) simp_all
  then obtain m' where m: "m = Suc m'"
    by (cases m) simp_all
  from d(3) assms(1) m have p: "p = m' * 2 ^ e + (2 ^ e - d)"
    using d(2) by (simp add: algebra_simps)
  have lt: "2 ^ e - d < (2::nat) ^ e"
    using d(1) by simp
  from p lt have q: "p div 2 ^ e = m'" and r: "p mod 2 ^ e = 2 ^ e - d"
    by simp_all
  have "2 ^ e < 2 * (2 ^ e - d)"
    using d(2) by simp
  then show ?thesis
    by (simp add: round_at_def q r m assms(1))
qed

lemma ten_double_03: "10 * (n * double_03) + 2 * n = 3 * n * 2 ^ 54"
  by (simp add: double_03_def)

lemma times_03_above:
  assumes "n < 2 ^ 51" and "3 * n < 10 * c"
  shows "times_03 n < c * 2 ^ 54"
proof -
  define p where "p = n * double_03"
  have "2 ^ 53 * round53 p \<le> (2 ^ 53 + 1) * p"
    using round53_near [of p] by simp
  moreover have "10 * p + 2 * n = 3 * n * 2 ^ 54"
    unfolding p_def by (rule ten_double_03)
  ultimately have "round53 p < c * 2 ^ 54"
    using assms by simp
  with assms(1) show ?thesis
    by (simp add: times_03_def round53_small p_def)
qed

lemma times_03_below:
  assumes "n < 2 ^ 51" and "10 * c < 3 * n"
  shows "c * 2 ^ 54 \<le> times_03 n"
proof -
  define p where "p = n * double_03"
  have "(2 ^ 53 - 1) * p \<le> 2 ^ 53 * round53 p"
    using round53_near [of p] by simp
  moreover have "10 * p + 2 * n = 3 * n * 2 ^ 54"
    unfolding p_def by (rule ten_double_03)
  ultimately have "c * 2 ^ 54 \<le> round53 p"
    using assms by simp
  with assms(1) show ?thesis
    by (simp add: times_03_def round53_small p_def)
qed

lemma times_03_exact:
  assumes "n < 2 ^ 51" and "10 * c = 3 * n"
  shows "times_03 n = c * 2 ^ 54"
proof -
  define k where "k = 7 * c - 2 * n"
  from assms(2) have k: "n = 10 * k" "c = 3 * k"
    unfolding k_def by linarith+
  define p where "p = n * double_03"
  define e where "e = excess_bits p"
  have pc: "p + 2 * k = c * 2 ^ 54"
    by (simp add: p_def k double_03_def)
  have "p < 2 ^ 53 * 2 ^ e"
    unfolding e_def by (rule excess_bits_upper)
  with pc k have small: "2 * (2 * k) < 2 ^ e \<or> k = 0"
    by simp
  have e54: "e \<le> 54"
  proof (cases "e = 0")
    case False
    then have "2 ^ 52 * 2 ^ e \<le> p"
      unfolding e_def by (intro excess_bits_lower) simp
    moreover from assms(1) have "p < 2 ^ 51 * 2 ^ 53"
      by (simp add: p_def double_03_def)
    ultimately have "(2::nat) ^ e < 2 ^ 52"
      by simp
    then have "e < 52"
      by (rule power_less_imp_less_exp [of 2, rotated]) simp
    then show ?thesis by simp
  qed simp
  then have "(2::nat) ^ 54 = 2 ^ (54 - e) * 2 ^ e"
    by (simp add: power_add [symmetric])
  then have m: "c * 2 ^ 54 = (c * 2 ^ (54 - e)) * 2 ^ e"
    by (simp only: mult.assoc)
  have "round_at e p = c * 2 ^ 54"
  proof (rule round_at_up [OF m])
    show "p \<le> c * 2 ^ 54"
      using pc by linarith
    show "2 * (c * 2 ^ 54 - p) < 2 ^ e"
      using pc small by (cases "k = 0") (simp_all add: k)
  qed
  then have "round53 p = c * 2 ^ 54"
    by (simp add: round53_def e_def)
  with assms(1) show ?thesis
    by (simp add: times_03_def round53_small p_def)
qed

lemma int_gt_float_times_03:
  assumes "n < 2 ^ 51"
  shows "int_gt_float c (times_03 n) \<longleftrightarrow> 3 * n < 10 * c"
proof -
  consider "3 * n < 10 * c" | "10 * c < 3 * n" | "10 * c = 3 * n"
    by linarith
  then show ?thesis
  proof cases
    case 1
    with times_03_above [OF assms] show ?thesis
      by (simp add: int_gt_float_def)
  next
    case 2
    with times_03_below [OF assms 2] show ?thesis
      by (simp add: int_gt_float_def)
  next
    case 3
    with times_03_exact [OF assms 3] show ?thesis
      by (simp add: int_gt_float_def)
  qed
qed

section \<open>The decoder\<close>

text \<open>
  C1. On bytes classified as text, \<open>safe_decode\<close> calls the decoder with the primary
  encoding first and returns the decoded text with the primary encoding when that
  succeeds. When the primary raises \<open>UnicodeError\<close>, it goes through the fallbacks in list
  order: with every fallback before \<open>enc\<close> raising \<open>UnicodeError\<close> and \<open>enc\<close> succeeding,
  the calls made are the primary, those fallbacks and \<open>enc\<close>, in that order and no other,
  and the result is the text decoded by \<open>enc\<close> together with \<open>enc\<close>, whatever the
  encodings after it would do.
\<close>

theorem first_successful_encoding_wins:
  assumes "guess_content_type data 1024 = ''text''"
  shows "(dec primary data = Decoded t \<longrightarrow>
            safe_decode dec data primary fallback_encodings = ([primary], Inr (t, primary)))
       \<and> (dec primary data = RaisesUnicodeError
            \<and> effective_fallbacks fallback_encodings = pre @ enc # post
            \<and> (\<forall>e \<in> set pre. dec e data = RaisesUnicodeError)
            \<and> dec enc data = Decoded t \<longrightarrow>
            safe_decode dec data primary fallback_encodings
              = (primary # pre @ [enc], Inr (t, enc)))"
  using assms by (simp add: safe_decode_def fallback_loop_skip)

theorem first_successful_encoding_wins_witness:
  "safe_decode py_decode [0x63, 0x61, 0x66, 0xE9] ''latin1'' (Some [''ascii''])
     = ([''latin1''], Inr ([99, 97, 102, 233], ''latin1''))
   \<and> safe_decode py_decode [0x63, 0x61, 0x66, 0xE9] ''utf-8''
         (Some [''ascii'', ''latin1'', ''cp1252''])
     = ([''utf-8'', ''ascii'', ''latin1''], Inr ([99, 97, 102, 233], ''latin1''))"
proof -
  have fb: "effective_fallbacks (Some [''ascii'', ''latin1'', ''cp1252''])
              = [''ascii''] @ ''latin1'' # [''cp1252'']"
    by (simp add: effective_fallbacks_def)
  have pre: "\<forall>e \<in> set [''ascii'']. py_decode e [0x63, 0x61, 0x66, 0xE9] = RaisesUnicodeError"
    by (simp add: cafe_ascii)
  show ?thesis
    using
      first_successful_encoding_wins [OF cafe_text, of py_decode "''latin1''"
        "[99, 97, 102, 233]" "Some [''ascii'']"]
      first_successful_encoding_wins [OF cafe_text, of py_decode "''utf-8''"
        "[99, 97, 102, 233]" "Some [''ascii'', ''latin1'', ''cp1252'']" "[''ascii'']"
        "''latin1''" "[''cp1252'']"]
      fb pre cafe_utf8 cafe_latin1
    by simp
qed

text \<open>
  C2, as the code has it. The fallbacks that are tried are the supplied list when it is
  not empty, and \<open>[latin1, cp1252, ascii]\<close> both when the caller supplies none and when
  the caller supplies the empty list. On bytes classified as text, when the primary and
  every one of these fallbacks raise \<open>UnicodeError\<close>, \<open>safe_decode\<close> has called all of
  them in order and raises \<open>UnicodeError\<close> carrying the primary followed by these
  fallbacks, and the hexadecimal form of the first 100 bytes.
\<close>

theorem exhausted_lists_attempts:
  assumes "guess_content_type data 1024 = ''text''"
    and "dec primary data = RaisesUnicodeError"
    and "\<forall>e \<in> set (effective_fallbacks fallback_encodings). dec e data = RaisesUnicodeError"
  shows "safe_decode dec data primary fallback_encodings
           = (primary # effective_fallbacks fallback_encodings,
              Inl (UnicodeError (primary # effective_fallbacks fallback_encodings)
                     (hex (take 100 data))))
         \<and> effective_fallbacks fallback_encodings
             = (if fallback_encodings = None \<or> fallback_encodings = Some []
                then [''latin1'', ''cp1252'', ''ascii''] else the fallback_encodings)"
proof
  show "safe_decode dec data primary fallback_encodings
           = (primary # effective_fallbacks fallback_encodings,
              Inl (UnicodeError (primary # effective_fallbacks fallback_encodings)
                     (hex (take 100 data))))"
    using assms by (simp add: safe_decode_def Let_def fallback_loop_all_fail)
  show "effective_fallbacks fallback_encodings
             = (if fallback_encodings = None \<or> fallback_encodings = Some []
                then [''latin1'', ''cp1252'', ''ascii''] else the fallback_encodings)"
    by (simp add: effective_fallbacks_def default_fallbacks_def split: option.splits list.splits)
qed

theorem exhausted_lists_attempts_witness:
  "safe_decode py_decode [0x63, 0x61, 0x66, 0xE9] ''utf-8'' (Some [''ascii'', ''utf-8''])
     = ([''utf-8'', ''ascii'', ''utf-8''],
        Inl (UnicodeError [''utf-8'', ''ascii'', ''utf-8''] ''636166e9''))"
proof -
  have fb: "effective_fallbacks (Some [''ascii'', ''utf-8'']) = [''ascii'', ''utf-8'']"
    by (simp add: effective_fallbacks_def)
  have all: "\<forall>e \<in> set (effective_fallbacks (Some [''ascii'', ''utf-8''])).
               py_decode e [0x63, 0x61, 0x66, 0xE9] = RaisesUnicodeError"
    by (simp add: fb cafe_ascii cafe_utf8)
  have hx: "hex [0x63, 0x61, 0x66, 0xE9] = ''636166e9''"
    by (simp add: hex_def hex_digit_def)
  show ?thesis
    using exhausted_lists_attempts [of "[0x63, 0x61, 0x66, 0xE9]" py_decode "''utf-8''"
        "Some [''ascii'', ''utf-8'']"] cafe_text cafe_utf8 all
    by (simp add: fb hx)
qed

text \<open>
  With the empty list supplied, the bytes \<open>b"caf\xe9"\<close> and \<open>utf-8\<close> as primary,
  decoding fails under the primary and there is no listed fallback, yet \<open>safe_decode\<close>
  does not raise: it tries the default \<open>latin1\<close> and returns its text.
\<close>

theorem empty_fallbacks_counterexample:
  "guess_content_type [0x63, 0x61, 0x66, 0xE9] 1024 = ''text''
   \<and> py_decode ''utf-8'' [0x63, 0x61, 0x66, 0xE9] = RaisesUnicodeError
   \<and> safe_decode py_decode [0x63, 0x61, 0x66, 0xE9] ''utf-8'' (Some [])
       = ([''utf-8'', ''latin1''], Inr ([99, 97, 102, 233], ''latin1''))"
  by (simp add: cafe_text cafe_utf8 cafe_latin1 safe_decode_def effective_fallbacks_def
      default_fallbacks_def)

text \<open>
  C3. On bytes the classifier calls binary, \<open>safe_decode\<close> raises \<open>ValueError\<close> with the
  hexadecimal form of the first 20 bytes, and has made no call of the decoder at all,
  whatever the decoder, the primary encoding and the fallbacks are.
\<close>

theorem binary_content_rejected:
  assumes "guess_content_type data 1024 = ''binary''"
  shows "safe_decode dec data primary fallback_encodings
           = ([], Inl (ValueError (hex (take 20 data))))"
  using assms by (simp add: safe_decode_def)

theorem binary_content_rejected_witness:
  "safe_decode py_decode [0x25, 0x50, 0x44, 0x46, 0x2D, 0x31] ''utf-8'' None
     = ([], Inl (ValueError ''255044462d31''))"
  using binary_content_rejected [OF pdf_binary, of py_decode "''utf-8''" None]
  by (simp add: hex_def hex_digit_def)

text \<open>
  C6. The empty byte sequence is classified as text, and with \<open>utf-8\<close> as primary and
  the empty fallback list \<open>safe_decode\<close> returns the empty text with \<open>utf-8\<close>, after the
  one call in which the \<open>utf-8\<close> decoder turns no bytes into the empty text.
\<close>

theorem empty_bytes_decode:
  "guess_content_type [] 1024 = ''text''
   \<and> (dec ''utf-8'' [] = Decoded [] \<longrightarrow>
        safe_decode dec [] ''utf-8'' (Some []) = ([''utf-8''], Inr ([], ''utf-8'')))"
  by (simp add: empty_text safe_decode_def)

theorem empty_bytes_decode_witness:
  "py_decode ''utf-8'' [] = Decoded []
   \<and> safe_decode py_decode [] ''utf-8'' (Some []) = ([''utf-8''], Inr ([], ''utf-8''))"
  using empty_bytes_decode [of py_decode] empty_utf8 by simp

text \<open>
  C7, as the code has it. With the fallbacks defaulted (none supplied, or the empty
  list) and \<open>latin1\<close> decoding the bytes, as it does every byte sequence, \<open>safe_decode\<close> on
  bytes classified as text never raises the \<open>UnicodeError\<close> of exhausted encodings. It
  returns a pair of text and encoding whenever the call with the primary encoding
  returns text, and the pair is then that text with the primary, or raises
  \<open>UnicodeError\<close>, and the pair is then the \<open>latin1\<close> text with \<open>latin1\<close>. When the call with
  the primary raises anything else, a \<open>LookupError\<close> or an exception of another class,
  that exception leaves \<open>safe_decode\<close> after the one call and there is no pair.
\<close>

theorem defaults_never_exhausted:
  assumes "guess_content_type data 1024 = ''text''"
    and "fallback_encodings = None \<or> fallback_encodings = Some []"
    and "dec ''latin1'' data = Decoded t"
  shows "(\<forall>tried h. snd (safe_decode dec data primary fallback_encodings)
                       \<noteq> Inl (UnicodeError tried h))
       \<and> ((\<exists>t'. dec primary data = Decoded t') \<or> dec primary data = RaisesUnicodeError \<longrightarrow>
            (\<exists>t' enc. snd (safe_decode dec data primary fallback_encodings) = Inr (t', enc)))
       \<and> (dec primary data = Decoded t' \<longrightarrow>
            safe_decode dec data primary fallback_encodings = ([primary], Inr (t', primary)))
       \<and> (dec primary data = RaisesUnicodeError \<longrightarrow>
            safe_decode dec data primary fallback_encodings
              = ([primary, ''latin1''], Inr (t, ''latin1'')))
       \<and> (dec primary data = RaisesLookupError \<longrightarrow>
            safe_decode dec data primary fallback_encodings
              = ([primary], Inl (LookupError primary)))
       \<and> (dec primary data = RaisesOther c \<longrightarrow>
            safe_decode dec data primary fallback_encodings = ([primary], Inl (Propagated c)))"
  using assms
  by (cases "dec primary data")
     (auto simp add: safe_decode_def effective_fallbacks_def default_fallbacks_def)

theorem defaults_never_exhausted_witness:
  "safe_decode py_decode [0x63, 0x61, 0x66, 0xE9] ''utf-8'' None
     = ([''utf-8'', ''latin1''], Inr ([99, 97, 102, 233], ''latin1''))"
  using defaults_never_exhausted [of "[0x63, 0x61, 0x66, 0xE9]" None py_decode
      "[99, 97, 102, 233]" "''utf-8''"] cafe_text cafe_latin1 cafe_utf8
  by simp

text \<open>
  With the primary encoding \<open>bogus\<close>, which the registry does not have, the bytes
  \<open>abc\<close>, classified as text, and no fallback list, \<open>safe_decode\<close> returns no pair: the
  \<open>LookupError\<close> of the first call leaves it.
\<close>

theorem unknown_primary_counterexample:
  "guess_content_type [0x61, 0x62, 0x63] 1024 = ''text''
   \<and> safe_decode py_decode [0x61, 0x62, 0x63] ''bogus'' None
       = ([''bogus''], Inl (LookupError ''bogus''))"
  by (simp add: abc_text abc_bogus safe_decode_def)

text \<open>
  C8, as the code has it. On bytes classified as text: when the call with the primary
  encoding raises \<open>LookupError\<close>, that exception leaves \<open>safe_decode\<close> and no fallback is
  tried; when the primary and the fallbacks before \<open>enc\<close> raise \<open>UnicodeError\<close> and the
  call with \<open>enc\<close> raises \<open>LookupError\<close>, that exception leaves \<open>safe_decode\<close> and no
  fallback after \<open>enc\<close> is tried. The exception is neither the \<open>ValueError\<close> of binary
  content nor the \<open>UnicodeError\<close> of exhausted encodings.
\<close>

theorem lookup_failure_propagates:
  assumes "guess_content_type data 1024 = ''text''"
  shows "(dec primary data = RaisesLookupError \<longrightarrow>
            safe_decode dec data primary fallback_encodings
              = ([primary], Inl (LookupError primary)))
       \<and> (dec primary data = RaisesUnicodeError
            \<and> effective_fallbacks fallback_encodings = pre @ enc # post
            \<and> (\<forall>e \<in> set pre. dec e data = RaisesUnicodeError)
            \<and> dec enc data = RaisesLookupError \<longrightarrow>
            safe_decode dec data primary fallback_encodings
              = (primary # pre @ [enc], Inl (LookupError enc)))"
  using assms by (simp add: safe_decode_def fallback_loop_skip)

theorem lookup_failure_propagates_witness:
  "safe_decode py_decode [0x63, 0x61, 0x66, 0xE9] ''bogus'' (Some [''latin1''])
     = ([''bogus''], Inl (LookupError ''bogus''))
   \<and> safe_decode py_decode [0x63, 0x61, 0x66, 0xE9] ''utf-8''
         (Some [''ascii'', ''bogus'', ''latin1''])
     = ([''utf-8'', ''ascii'', ''bogus''], Inl (LookupError ''bogus''))"
proof -
  have fb: "effective_fallbacks (Some [''ascii'', ''bogus'', ''latin1''])
              = [''ascii''] @ ''bogus'' # [''latin1'']"
    by (simp add: effective_fallbacks_def)
  have pre: "\<forall>e \<in> set [''ascii'']. py_decode e [0x63, 0x61, 0x66, 0xE9] = RaisesUnicodeError"
    by (simp add: cafe_ascii)
  show ?thesis
    using
      lookup_failure_propagates [OF cafe_text, of py_decode "''bogus''" "Some [''latin1'']"]
      lookup_failure_propagates [OF cafe_text, of py_decode "''utf-8''"
        "Some [''ascii'', ''bogus'', ''latin1'']" "[''ascii'']" "''bogus''" "[''latin1'']"]
      fb pre cafe_utf8 cafe_bogus
    by simp
qed

text \<open>
  A name that the registry does not have does not always end in a lookup failure. The
  name \<open>bogus\<close> raises \<open>LookupError\<close> for the bytes \<open>abc\<close>. For the empty bytes, which are
  classified as text, the library returns the empty text without looking the name up,
  and \<open>safe_decode\<close> returns it with the name \<open>bogus\<close>. For the bytes \<open>%PDF-1\<close>, classified
  as binary, \<open>safe_decode\<close> raises the \<open>ValueError\<close> of binary content, and the decoder is
  never called.
\<close>

theorem absent_name_counterexample:
  "py_decode ''bogus'' [0x61, 0x62, 0x63] = RaisesLookupError
   \<and> guess_content_type [] 1024 = ''text''
   \<and> safe_decode py_decode [] ''bogus'' None = ([''bogus''], Inr ([], ''bogus''))
   \<and> safe_decode py_decode [0x25, 0x50, 0x44, 0x46, 0x2D, 0x31] ''bogus'' None
       = ([], Inl (ValueError ''255044462d31''))"
  by (simp add: abc_bogus empty_text empty_bogus pdf_binary safe_decode_def hex_def
      hex_digit_def)




section \<open>The classifier\<close>

text \<open>
  C4. When the sample \<open>data[:sample_size]\<close> starts with one of the five signatures
  \<open>%PDF-\<close>, \<open>PK\x03\x04\<close>, \<open>\x89PNG\<close>, \<open>\xFF\xD8\xFF\<close>, \<open>\x1f\x8b\<close>, the verdict is
  \<open>'binary'\<close>, whatever else the bytes hold.
\<close>

theorem binary_signature_classified_binary:
  assumes "sig \<in> set [[0x25, 0x50, 0x44, 0x46, 0x2D], [0x50, 0x4B, 0x03, 0x04],
                        [0x89, 0x50, 0x4E, 0x47], [0xFF, 0xD8, 0xFF], [0x1F, 0x8B]]"
    and "startswith (slice_to data sample_size) sig"
  shows "guess_content_type data sample_size = ''binary''"
proof -
  from assms(1) have "sig \<in> set binary_sigs"
    by (simp add: binary_sigs_def)
  with assms(2) have "sig_loop (slice_to data sample_size) binary_sigs"
    unfolding sig_loop_iff by blast
  then show ?thesis
    by (simp add: guess_content_type_def)
qed

theorem binary_signature_classified_binary_witness:
  "guess_content_type ([0x25, 0x50, 0x44, 0x46, 0x2D] @ [0x31, 0x2E, 0x34, 0x0A, 0x41]) 1024
     = ''binary''
   \<and> guess_content_type ([0x1F, 0x8B] @ [0x41, 0x42, 0x43]) 2 = ''binary''"
proof -
  have a: "startswith
             (slice_to ([0x25, 0x50, 0x44, 0x46, 0x2D] @ [0x31, 0x2E, 0x34, 0x0A, 0x41]) 1024)
             [0x25, 0x50, 0x44, 0x46, 0x2D]"
    by (simp add: startswith_def slice_to_def)
  have b: "startswith (slice_to ([0x1F, 0x8B] @ [0x41, 0x42, 0x43]) 2) [0x1F, 0x8B]"
    by (simp add: startswith_def slice_to_def)
  show ?thesis
    using binary_signature_classified_binary [OF _ a]
      binary_signature_classified_binary [OF _ b]
    by simp
qed

text \<open>
  C5. When the sample \<open>data[:sample_size]\<close> starts with none of the five signatures, the
  verdict is \<open>'binary'\<close> exactly when the number of sample bytes below 32 other than 9,
  10 and 13 is more than 30 percent of the length of the sample, that is when ten times
  that number exceeds three times the length, and \<open>'text'\<close> otherwise. The source
  compares with the floating-point product \<open>len(sample) * 0.3\<close>; the two agree for every
  sample shorter than \<open>2^51\<close> bytes.
\<close>

theorem control_byte_ratio_decides:
  assumes "sample = slice_to data sample_size"
    and "\<forall>sig \<in> set [[0x25, 0x50, 0x44, 0x46, 0x2D], [0x50, 0x4B, 0x03, 0x04],
                          [0x89, 0x50, 0x4E, 0x47], [0xFF, 0xD8, 0xFF], [0x1F, 0x8B]].
           \<not> startswith sample sig"
    and "length sample < 2 ^ 51"
  shows "guess_content_type data sample_size
           = (if 3 * length sample
                   < 10 * length (filter (\<lambda>b. b < 32 \<and> b \<noteq> 9 \<and> b \<noteq> 10 \<and> b \<noteq> 13) sample)
              then ''binary'' else ''text'')"
proof -
  from assms(2) have "\<not> sig_loop sample binary_sigs"
    unfolding sig_loop_iff by (simp add: binary_sigs_def)
  moreover have "control_chars sample
      = length (filter (\<lambda>b. b < 32 \<and> b \<noteq> 9 \<and> b \<noteq> 10 \<and> b \<noteq> 13) sample)"
    by (simp add: control_chars_def)
  ultimately show ?thesis
    using int_gt_float_times_03 [OF assms(3)]
    by (simp add: guess_content_type_def assms(1) [symmetric])
qed

theorem control_byte_ratio_decides_witness:
  "guess_content_type [0, 1, 2, 9, 10, 13, 0x41, 0x42, 0x43, 0x44] 1024 = ''text''
   \<and> guess_content_type [0, 1, 2, 3, 10, 13, 0x41, 0x42, 0x43, 0x44] 1024 = ''binary''"
proof -
  have a: "slice_to [0, 1, 2, 9, 10, 13, 0x41, 0x42, 0x43, 0x44 :: byte] 1024
             = [0, 1, 2, 9, 10, 13, 0x41, 0x42, 0x43, 0x44]"
    and b: "slice_to [0, 1, 2, 3, 10, 13, 0x41, 0x42, 0x43, 0x44 :: byte] 1024
             = [0, 1, 2, 3, 10, 13, 0x41, 0x42, 0x43, 0x44]"
    by (simp_all add: slice_to_def)
  show ?thesis
    using control_byte_ratio_decides [OF a [symmetric]]
      control_byte_ratio_decides [OF b [symmetric]]
    by (simp add: startswith_def)
qed

text \<open>
  C9, as the code has it. The verdict depends on the bytes only through the sample
  \<open>data[:sample_size]\<close>: two byte sequences with the same sample get the same verdict, for
  every sample size. For a sample size that is not negative, the sample of the sample
  is the sample, so classifying \<open>data[:sample_size]\<close> gives the verdict of \<open>data\<close>.
\<close>

theorem verdict_depends_on_sample:
  "(slice_to data sample_size = slice_to data' sample_size \<longrightarrow>
      guess_content_type data sample_size = guess_content_type data' sample_size)
   \<and> (0 \<le> sample_size \<longrightarrow>
      guess_content_type data sample_size
        = guess_content_type (slice_to data sample_size) sample_size)"
  by (simp add: guess_content_type_def slice_to_idem)

theorem verdict_depends_on_sample_witness:
  "slice_to [0, 0x41 :: byte] 1 = slice_to [0, 0x42, 0x43] 1
   \<and> guess_content_type [0, 0x41] 1 = guess_content_type [0, 0x42, 0x43] 1
   \<and> guess_content_type [0, 0x41] 1 = guess_content_type (slice_to [0, 0x41] 1) 1"
proof -
  have s: "slice_to [0, 0x41 :: byte] 1 = slice_to [0, 0x42, 0x43] 1"
    by (simp add: slice_to_def)
  have p: "(0 :: int) \<le> 1"
    by simp
  from verdict_depends_on_sample [of "[0, 0x41]" 1 "[0, 0x42, 0x43]"] s p
  have "guess_content_type [0, 0x41] 1 = guess_content_type [0, 0x42, 0x43] 1"
    and "guess_content_type [0, 0x41] 1 = guess_content_type (slice_to [0, 0x41] 1) 1"
    by blast+
  with s show ?thesis
    by blast
qed

text \<open>
  A negative sample size cuts bytes off the end: \<open>data[:-1]\<close> is all but the last byte.
  For the two bytes \<open>\x00A\<close> the sample is \<open>\x00\<close>, one control byte out of one, and
  the verdict is \<open>'binary'\<close>; for \<open>data[:-1]\<close>, which is \<open>\x00\<close>, the sample is empty and the
  verdict is \<open>'text'\<close>.
\<close>

lemma nul_A_binary: "guess_content_type [0, 0x41] (- 1) = ''binary''"
  by (simp add: classify_eval)

lemma nul_A_prefix_text: "guess_content_type (slice_to [0, 0x41] (- 1)) (- 1) = ''text''"
  by (simp add: classify_eval)

theorem negative_sample_size_counterexample:
  "guess_content_type [0, 0x41] (- 1)
     \<noteq> guess_content_type (slice_to [0, 0x41] (- 1)) (- 1)"
  by (simp add: nul_A_binary nul_A_prefix_text)

end
